theory Spec2Isabelle
  imports Complex_Main "HOL-Library.Word"
begin

unbundle bit_operations_syntax

section \<open>Frame codec and stream parser (web_environment_control.py, lines 25-90)\<close>

text \<open>
  A Python \<open>bytes\<close> or \<open>bytearray\<close> value is a sequence of integers in the range
  0..255; it is modelled as a list of 8-bit words. Python integers that are not the
  element of a byte sequence (\<open>cmd\<close>, \<open>self.length\<close>, \<open>self.expected_payload\<close>,
  \<open>self.state\<close>) are unbounded and stay \<open>int\<close>. The exceptions the modelled code can
  raise are the constructors of \<open>py_error\<close>.
\<close>

type_synonym byte = "8 word"

datatype py_error = ValueError | IndexError | TypeError | AttributeError

definition SOF :: byte where
  "SOF = 0xAA"

definition EOF :: byte where
  "EOF = 0x55"

text \<open>\<open>calc_cs\<close>: the loop \<open>for b in data: cs ^= b\<close> starting at 0, then \<open>cs & 0xFF\<close>.\<close>

definition calc_cs :: "byte list \<Rightarrow> byte" where
  "calc_cs data = (fold (\<lambda>b cs. cs XOR b) data 0) AND 0xFF"

text \<open>
  \<open>bytes([...])\<close> on a list of integers raises ValueError unless every element is in
  0..255.
\<close>

definition bytes_of_ints :: "int list \<Rightarrow> py_error + byte list" where
  "bytes_of_ints xs =
     (if list_all (\<lambda>i. 0 \<le> i \<and> i \<le> 255) xs then Inr (map word_of_int xs)
      else Inl ValueError)"

definition pack_frame :: "int \<Rightarrow> byte list \<Rightarrow> py_error + byte list" where
  "pack_frame cmd payload =
     (let length_v = 1 + int (length payload) in
      case bytes_of_ints [length_v, cmd] of
        Inl e \<Rightarrow> Inl e
      | Inr hdr \<Rightarrow>
          (let body = hdr @ payload;
               cs = calc_cs body
           in Inr ([SOF] @ body @ [cs, EOF])))"

text \<open>
  Python indexing \<open>xs[i]\<close> with a non-negative constant index, and slicing \<open>xs[i:j]\<close>
  (negative bounds count from the end, all bounds are clipped to the length, an empty
  range gives the empty sequence).
\<close>

definition getitem :: "'a list \<Rightarrow> nat \<Rightarrow> py_error + 'a" where
  "getitem xs i = (if i < length xs then Inr (xs ! i) else Inl IndexError)"

definition slice_index :: "int \<Rightarrow> int \<Rightarrow> nat" where
  "slice_index n i = nat (if i < 0 then max 0 (n + i) else min n i)"

definition py_slice :: "'a list \<Rightarrow> int \<Rightarrow> int \<Rightarrow> 'a list" where
  "py_slice xs i j =
     (let n = int (length xs); a = slice_index n i; b = slice_index n j
      in take (b - a) (drop a xs))"

text \<open>
  The fields of \<open>FrameParser\<close>; \<open>length_p\<close> is the source's \<open>self.length\<close>. The state
  numbers are the source's: 0 searching, 1 length, 2 command, 21 payload, 3 checksum,
  4 terminator.
\<close>

record FrameParser =
  state :: int
  buf :: "byte list"
  length_p :: int
  expected_payload :: int
  payload :: "byte list"

definition FrameParser_init :: FrameParser where
  "FrameParser_init =
     \<lparr>state = 0, buf = [], length_p = 0, expected_payload = 0, payload = []\<rparr>"

text \<open>
  \<open>feed\<close> returns the updated parser and the value the method returns: \<open>None\<close>, or the
  decoded pair \<open>(cmd, payload)\<close>. The only statements that can raise are the reads
  \<open>self.buf[0]\<close> and \<open>self.buf[1]\<close> of state 4.
\<close>

definition feed :: "FrameParser \<Rightarrow> byte \<Rightarrow> py_error + (FrameParser \<times> (int \<times> byte list) option)" where
  "feed p b =
     (if state p = 0 then
        (if b = SOF then Inr (p\<lparr>buf := [], state := 1\<rparr>, None)
         else Inr (p, None))
      else if state p = 1 then
        Inr (p\<lparr>length_p := uint b, buf := [b], state := 2\<rparr>, None)
      else if state p = 2 then
        (let p1 = p\<lparr>buf := buf p @ [b]\<rparr> in
         if length_p p1 = 1 then Inr (p1\<lparr>state := 3\<rparr>, None)
         else Inr (p1\<lparr>state := 21, expected_payload := length_p p1 - 1, payload := []\<rparr>, None))
      else if state p = 21 then
        (let p1 = p\<lparr>payload := payload p @ [b]\<rparr> in
         if int (length (payload p1)) \<ge> expected_payload p1
         then Inr (p1\<lparr>buf := buf p1 @ payload p1, state := 3\<rparr>, None)
         else Inr (p1, None))
      else if state p = 3 then
        (let cs_calc = calc_cs (buf p) in
         if cs_calc \<noteq> b then Inr (p\<lparr>state := 0\<rparr>, None)
         else Inr (p\<lparr>state := 4\<rparr>, None))
      else if state p = 4 then
        (if b = EOF then
           (case getitem (buf p) 0 of
              Inl e \<Rightarrow> Inl e
            | Inr length_v \<Rightarrow>
                (case getitem (buf p) 1 of
                   Inl e \<Rightarrow> Inl e
                 | Inr cmd \<Rightarrow>
                     Inr (p\<lparr>state := 0\<rparr>,
                          Some (uint cmd, py_slice (buf p) 2 (2 + (uint length_v - 1))))))
         else Inr (p\<lparr>state := 0\<rparr>, None))
      else Inr (p, None))"

text \<open>
  Feeding a byte sequence one byte at a time, as the receive loop
  \<open>for byte in data: result = self.parser.feed(byte)\<close> does, collecting what each call
  returns. An exception ends the loop.
\<close>

fun feed_all :: "FrameParser \<Rightarrow> byte list \<Rightarrow> py_error + (FrameParser \<times> (int \<times> byte list) option list)" where
  "feed_all p [] = Inr (p, [])"
| "feed_all p (b # bs) =
     (case feed p b of
        Inl e \<Rightarrow> Inl e
      | Inr (p1, r) \<Rightarrow>
          (case feed_all p1 bs of
             Inl e \<Rightarrow> Inl e
           | Inr (p2, rs) \<Rightarrow> Inr (p2, r # rs)))"

section \<open>Serial transport (class SerialManager, lines 92-176)\<close>

text \<open>
  Python \<open>str\<close> values are modelled as \<open>string\<close>, holding the UTF-8 encoding of the
  text; the source never takes the length of a string, it only compares and concatenates
  them. \<open>utf8\<close> encodes a list of code points, for the literals of the source that are
  not ASCII.
\<close>

definition utf8_char :: "nat \<Rightarrow> string" where
  "utf8_char c =
     (if c < 0x80 then [char_of c]
      else if c < 0x800 then [char_of (0xC0 + c div 64), char_of (0x80 + c mod 64)]
      else if c < 0x10000 then
        [char_of (0xE0 + c div 4096), char_of (0x80 + c div 64 mod 64), char_of (0x80 + c mod 64)]
      else
        [char_of (0xF0 + c div 262144), char_of (0x80 + c div 4096 mod 64),
         char_of (0x80 + c div 64 mod 64), char_of (0x80 + c mod 64)])"

definition utf8 :: "nat list \<Rightarrow> string" where
  "utf8 cs = concat (map utf8_char cs)"

text \<open>
  What lies outside the program is a parameter of the model: whether the import of
  pyserial succeeded (\<open>SERIAL_AVAILABLE\<close>), what \<open>serial.tools.list_ports.comports()\<close>
  enumerates (\<open>None\<close> when it raises), whether \<open>serial.Serial(port, baudrate)\<close> opens the
  device (\<open>Some msg\<close> when it raises with text \<open>msg\<close>), and whether \<open>ser.write(frame)\<close>
  succeeds (\<open>Some msg\<close> when it raises).
\<close>

record SerialPort =
  port_name :: string
  baud :: int
  is_open :: bool
  written :: "byte list"

record serial_env =
  SERIAL_AVAILABLE :: bool
  comports :: "string list option"
  open_error :: "string \<Rightarrow> int \<Rightarrow> string option"
  write_error :: "SerialPort \<Rightarrow> byte list \<Rightarrow> string option"

text \<open>
  \<open>rx_thread\<close> records that a receive thread has been created; the thread itself, which
  runs concurrently and feeds the parser, is not part of this sequential model.
\<close>

record SerialManager =
  ser :: "SerialPort option"
  rx_thread :: bool
  stop_flag :: bool
  parser :: FrameParser
  connected :: bool

definition SerialManager_init :: SerialManager where
  "SerialManager_init =
     \<lparr>ser = None, rx_thread = False, stop_flag = False, parser = FrameParser_init,
      connected = False\<rparr>"

definition list_ports :: "serial_env \<Rightarrow> string list" where
  "list_ports env =
     (if \<not> SERIAL_AVAILABLE env then []
      else (case comports env of None \<Rightarrow> [] | Some devices \<Rightarrow> devices))"

definition disconnect :: "SerialManager \<Rightarrow> SerialManager \<times> (bool \<times> string)" where
  "disconnect m =
     (let m1 = m\<lparr>connected := False, stop_flag := True\<rparr>;
          m2 = (case ser m1 of
                  None \<Rightarrow> m1
                | Some s \<Rightarrow> if is_open s then m1\<lparr>ser := Some (s\<lparr>is_open := False\<rparr>)\<rparr> else m1)
      in (m2, (True, ''Disconnected'')))"

definition connect :: "serial_env \<Rightarrow> string \<Rightarrow> int \<Rightarrow> SerialManager \<Rightarrow> SerialManager \<times> (bool \<times> string)" where
  "connect env port baudrate m =
     (if \<not> SERIAL_AVAILABLE env then (m, (False, ''Serial library not available''))
      else
        (let m1 = (case ser m of
                     None \<Rightarrow> m
                   | Some s \<Rightarrow> if is_open s then fst (disconnect m) else m)
         in case open_error env port baudrate of
              Some e \<Rightarrow> (m1, (False, ''Connection failed: '' @ e))
            | None \<Rightarrow>
                (m1\<lparr>ser := Some \<lparr>port_name = port, baud = baudrate, is_open = True, written = []\<rparr>,
                    connected := True, stop_flag := False, rx_thread := True\<rparr>,
                 (True, ''Connected to '' @ port))))"

text \<open>The text of the only exception \<open>pack_frame\<close> can raise, as \<open>str(e)\<close> gives it.\<close>

definition error_text :: "py_error \<Rightarrow> string" where
  "error_text e = (case e of ValueError \<Rightarrow> ''bytes must be in range(0, 256)'' | _ \<Rightarrow> [])"

definition send_command :: "serial_env \<Rightarrow> int \<Rightarrow> byte list \<Rightarrow> SerialManager \<Rightarrow> SerialManager \<times> (bool \<times> string)" where
  "send_command env cmd payload_v m =
     (case (if connected m then ser m else None) of
        None \<Rightarrow> (m, (False, ''Not connected''))
      | Some s \<Rightarrow>
          (case pack_frame cmd payload_v of
             Inl e \<Rightarrow> (m, (False, ''Send failed: '' @ error_text e))
           | Inr frame \<Rightarrow>
               (case write_error env s frame of
                  Some e \<Rightarrow> (m, (False, ''Send failed: '' @ e))
                | None \<Rightarrow>
                    (m\<lparr>ser := Some (s\<lparr>written := written s @ frame\<rparr>)\<rparr>,
                     (True, ''Command sent'')))))"

section \<open>Environment data and automatic control (class EnvironmentData, lines 182-426)\<close>

text \<open>
  A Python float is a finite number, an infinity or NaN; the integer thresholds of the
  constructor are finite numbers too. Only the comparisons \<open><\<close> and \<open>>\<close> are applied to
  these values, and every comparison with NaN is false.
\<close>

datatype pyfloat = Finite real | PosInf | NegInf | NaN

fun py_lt :: "pyfloat \<Rightarrow> pyfloat \<Rightarrow> bool" where
  "py_lt NaN _ = False"
| "py_lt _ NaN = False"
| "py_lt (Finite a) (Finite b) = (a < b)"
| "py_lt (Finite _) PosInf = True"
| "py_lt (Finite _) NegInf = False"
| "py_lt PosInf _ = False"
| "py_lt NegInf NegInf = False"
| "py_lt NegInf _ = True"

definition py_gt :: "pyfloat \<Rightarrow> pyfloat \<Rightarrow> bool" where
  "py_gt a b = py_lt b a"

text \<open>
  \<open>struct.unpack('<5f', ...)\<close>: five IEEE 754 binary32 values, little-endian. Minus zero
  is read as zero, which compares the same.
\<close>

definition f32_of_bytes :: "byte list \<Rightarrow> pyfloat" where
  "f32_of_bytes bs =
     (let w = foldr (\<lambda>b acc. uint b + 256 * acc) bs 0;
          negative = (w div 2 ^ 31 = 1);
          e = (w div 2 ^ 23) mod 256;
          f = w mod 2 ^ 23
      in if e = 255 then (if f = 0 then (if negative then NegInf else PosInf) else NaN)
         else
           (let mag = (if e = 0 then real_of_int f / 2 ^ 149
                       else if e < 150 then real_of_int (2 ^ 23 + f) / 2 ^ nat (150 - e)
                       else real_of_int (2 ^ 23 + f) * 2 ^ nat (e - 150))
            in Finite (if negative then - mag else mag)))"

definition unpack_5f :: "byte list \<Rightarrow> pyfloat \<times> pyfloat \<times> pyfloat \<times> pyfloat \<times> pyfloat" where
  "unpack_5f bs =
     (f32_of_bytes (py_slice bs 0 4), f32_of_bytes (py_slice bs 4 8),
      f32_of_bytes (py_slice bs 8 12), f32_of_bytes (py_slice bs 12 16),
      f32_of_bytes (py_slice bs 16 20))"

text \<open>
  The dictionaries \<open>self.data\<close>, \<open>self.device_states\<close> and \<open>self.thresholds\<close> are created
  with a fixed set of keys, and every later assignment is to an existing key (the route
  handlers check membership first); the one exception is \<open>self.data['pm25']\<close>, added by
  the first sensor frame. They are records with one field per key, \<open>pm25\<close> optional.
  \<open>event_type\<close> is the key \<open>'type'\<close> of an event. The attribute \<open>history\<close>, which no
  method reads or writes, is left out.
\<close>

record Sample =
  temperature :: pyfloat
  humidity :: pyfloat
  co2 :: pyfloat
  light :: pyfloat
  smoke :: pyfloat
  pm25 :: "pyfloat option"

record DeviceStates =
  heating :: bool
  cooling :: bool
  humidify :: bool
  dehumidify :: bool
  ventilation :: bool
  close_vent :: bool

record Thresholds =
  temperature_min :: pyfloat
  temperature_max :: pyfloat
  humidity_min :: pyfloat
  humidity_max :: pyfloat
  co2_max :: pyfloat
  light_min :: pyfloat
  light_max :: pyfloat
  smoke_max :: pyfloat

record Event =
  timestamp :: string
  event_type :: string
  message :: string
  level :: string

record EnvironmentData =
  data :: Sample
  device_states :: DeviceStates
  thresholds :: Thresholds
  events :: "Event list"
  running :: bool
  use_simulation :: bool
  data_mode :: string
  serial_manager :: SerialManager

definition EnvironmentData_init :: EnvironmentData where
  "EnvironmentData_init =
     \<lparr>data = \<lparr>temperature = Finite 25, humidity = Finite 60, co2 = Finite 400,
              light = Finite 350, smoke = Finite 0, pm25 = None\<rparr>,
      device_states = \<lparr>heating = False, cooling = False, humidify = False,
                       dehumidify = False, ventilation = False, close_vent = False\<rparr>,
      thresholds = \<lparr>temperature_min = Finite 20, temperature_max = Finite 26,
                    humidity_min = Finite 40, humidity_max = Finite 70,
                    co2_max = Finite 1000, light_min = Finite 100, light_max = Finite 800,
                    smoke_max = Finite 50\<rparr>,
      events = [],
      running = True,
      use_simulation = True,
      data_mode = ''simulation'',
      serial_manager = SerialManager_init\<rparr>"

subsection \<open>The literals of the source that are not ASCII\<close>

definition msg_heating_on :: string where
  "msg_heating_on = utf8 [0x542F, 0x52A8, 0x52A0, 0x70ED, 0x7CFB, 0x7EDF]"

definition msg_cooling_on :: string where
  "msg_cooling_on = utf8 [0x542F, 0x52A8, 0x5236, 0x51B7, 0x7CFB, 0x7EDF]"

definition msg_heating_off :: string where
  "msg_heating_off = utf8 [0x5173, 0x95ED, 0x52A0, 0x70ED, 0x7CFB, 0x7EDF]"

definition msg_cooling_off :: string where
  "msg_cooling_off = utf8 [0x5173, 0x95ED, 0x5236, 0x51B7, 0x7CFB, 0x7EDF]"

definition msg_humidify_on :: string where
  "msg_humidify_on = utf8 [0x542F, 0x52A8, 0x52A0, 0x6E7F, 0x7CFB, 0x7EDF]"

definition msg_dehumidify_on :: string where
  "msg_dehumidify_on = utf8 [0x542F, 0x52A8, 0x9664, 0x6E7F, 0x7CFB, 0x7EDF]"

definition msg_humidify_off :: string where
  "msg_humidify_off = utf8 [0x5173, 0x95ED, 0x52A0, 0x6E7F, 0x7CFB, 0x7EDF]"

definition msg_dehumidify_off :: string where
  "msg_dehumidify_off = utf8 [0x5173, 0x95ED, 0x9664, 0x6E7F, 0x7CFB, 0x7EDF]"

definition msg_ventilation_on :: string where
  "msg_ventilation_on = utf8 [0x542F, 0x52A8, 0x901A, 0x98CE, 0x7CFB, 0x7EDF]"

definition msg_ventilation_off :: string where
  "msg_ventilation_off = utf8 [0x5173, 0x95ED, 0x901A, 0x98CE, 0x7CFB, 0x7EDF]"

definition msg_env_received :: string where
  "msg_env_received = utf8 [0x63A5, 0x6536, 0x5230, 0x73AF, 0x5883, 0x6570, 0x636E]"

definition msg_dev_received :: string where
  "msg_dev_received = utf8 [0x63A5, 0x6536, 0x5230, 0x8BBE, 0x5907, 0x72B6, 0x6001]"

definition msg_serial_not_connected :: string where
  "msg_serial_not_connected = utf8 [0x4E32, 0x53E3, 0x672A, 0x8FDE, 0x63A5]"

definition msg_unknown_device :: string where
  "msg_unknown_device = utf8 [0x672A, 0x77E5, 0x8BBE, 0x5907]"

definition msg_command_sent :: string where
  "msg_command_sent = utf8 [0x53D1, 0x9001, 0x8BBE, 0x5907, 0x63A7, 0x5236, 0x547D, 0x4EE4, 0x003A, 0x0020]"

definition msg_command_failed :: string where
  "msg_command_failed = utf8 [0x53D1, 0x9001, 0x547D, 0x4EE4, 0x5931, 0x8D25, 0x003A, 0x0020]"

definition name_heating :: string where
  "name_heating = utf8 [0x52A0, 0x70ED, 0x7CFB, 0x7EDF]"

definition name_cooling :: string where
  "name_cooling = utf8 [0x5236, 0x51B7, 0x7CFB, 0x7EDF]"

definition name_humidify :: string where
  "name_humidify = utf8 [0x52A0, 0x6E7F, 0x7CFB, 0x7EDF]"

definition name_dehumidify :: string where
  "name_dehumidify = utf8 [0x9664, 0x6E7F, 0x7CFB, 0x7EDF]"

definition name_ventilation :: string where
  "name_ventilation = utf8 [0x901A, 0x98CE, 0x7CFB, 0x7EDF]"

definition name_close_vent :: string where
  "name_close_vent = utf8 [0x901A, 0x98CE, 0x5173, 0x95ED]"

definition txt_manual :: string where
  "txt_manual = utf8 [0x624B, 0x52A8]"

definition txt_start :: string where
  "txt_start = utf8 [0x542F, 0x52A8]"

definition txt_stop :: string where
  "txt_stop = utf8 [0x5173, 0x95ED]"

text \<open>
  \<open>add_event\<close> reads the clock; the reading \<open>datetime.now().strftime("%H:%M:%S")\<close> is
  the parameter \<open>ts\<close>. A method that calls \<open>add_event\<close> takes a function \<open>clk\<close>, whose
  value at \<open>i\<close> is the reading of its call number \<open>i\<close> (from 0) to \<open>add_event\<close>.
\<close>

definition add_event :: "string \<Rightarrow> string \<Rightarrow> string \<Rightarrow> string \<Rightarrow> EnvironmentData \<Rightarrow> EnvironmentData" where
  "add_event ts etype msg lvl s =
     (let event = \<lparr>timestamp = ts, event_type = etype, message = msg, level = lvl\<rparr>;
          es = events s @ [event]
      in s\<lparr>events := (if length es > 100 then tl es else es)\<rparr>)"

text \<open>The loop \<open>for change in changes: self.add_event("DEVICE", change, "INFO")\<close>.\<close>

fun log_changes :: "(nat \<Rightarrow> string) \<Rightarrow> nat \<Rightarrow> string list \<Rightarrow> EnvironmentData \<Rightarrow> EnvironmentData" where
  "log_changes clk i [] s = s"
| "log_changes clk i (change # changes) s =
     log_changes clk (Suc i) changes (add_event (clk i) ''DEVICE'' change ''INFO'' s)"

text \<open>
  \<open>auto_control\<close> is three blocks in sequence, each transforming the device states and
  the list \<open>changes\<close>; the blocks are the three definitions below, in the source's order.
\<close>

definition temperature_control :: "Sample \<Rightarrow> Thresholds \<Rightarrow> DeviceStates \<times> string list \<Rightarrow> DeviceStates \<times> string list" where
  "temperature_control d th = (\<lambda>(ds, changes).
     if py_lt (temperature d) (temperature_min th) then
       (if \<not> heating ds
        then (ds\<lparr>heating := True, cooling := False\<rparr>, changes @ [msg_heating_on])
        else (ds, changes))
     else if py_gt (temperature d) (temperature_max th) then
       (if \<not> cooling ds
        then (ds\<lparr>cooling := True, heating := False\<rparr>, changes @ [msg_cooling_on])
        else (ds, changes))
     else
       (let (ds1, changes1) =
              (if heating ds then (ds\<lparr>heating := False\<rparr>, changes @ [msg_heating_off])
               else (ds, changes))
        in if cooling ds1 then (ds1\<lparr>cooling := False\<rparr>, changes1 @ [msg_cooling_off])
           else (ds1, changes1)))"

definition humidity_control :: "Sample \<Rightarrow> Thresholds \<Rightarrow> DeviceStates \<times> string list \<Rightarrow> DeviceStates \<times> string list" where
  "humidity_control d th = (\<lambda>(ds, changes).
     if py_lt (humidity d) (humidity_min th) then
       (if \<not> humidify ds
        then (ds\<lparr>humidify := True, dehumidify := False\<rparr>, changes @ [msg_humidify_on])
        else (ds, changes))
     else if py_gt (humidity d) (humidity_max th) then
       (if \<not> dehumidify ds
        then (ds\<lparr>dehumidify := True, humidify := False\<rparr>, changes @ [msg_dehumidify_on])
        else (ds, changes))
     else
       (let (ds1, changes1) =
              (if humidify ds then (ds\<lparr>humidify := False\<rparr>, changes @ [msg_humidify_off])
               else (ds, changes))
        in if dehumidify ds1 then (ds1\<lparr>dehumidify := False\<rparr>, changes1 @ [msg_dehumidify_off])
           else (ds1, changes1)))"

definition co2_control :: "Sample \<Rightarrow> Thresholds \<Rightarrow> DeviceStates \<times> string list \<Rightarrow> DeviceStates \<times> string list" where
  "co2_control d th = (\<lambda>(ds, changes).
     if py_gt (co2 d) (co2_max th) then
       (if \<not> ventilation ds
        then (ds\<lparr>ventilation := True\<rparr>, changes @ [msg_ventilation_on])
        else (ds, changes))
     else
       (if ventilation ds
        then (ds\<lparr>ventilation := False\<rparr>, changes @ [msg_ventilation_off])
        else (ds, changes)))"

definition auto_control :: "(nat \<Rightarrow> string) \<Rightarrow> EnvironmentData \<Rightarrow> EnvironmentData" where
  "auto_control clk s =
     (let (ds, changes) =
            co2_control (data s) (thresholds s)
              (humidity_control (data s) (thresholds s)
                (temperature_control (data s) (thresholds s) (device_states s, [])))
      in log_changes clk 0 changes (s\<lparr>device_states := ds\<rparr>))"

text \<open>
  \<open>on_serial_data\<close>: with a payload that is a byte sequence nothing inside the
  \<open>try\<close> block can raise, so the \<open>except\<close> branch has no counterpart here.
\<close>

definition on_serial_data :: "(nat \<Rightarrow> string) \<Rightarrow> int \<Rightarrow> byte list \<Rightarrow> EnvironmentData \<Rightarrow> EnvironmentData" where
  "on_serial_data clk cmd payload_v s =
     (if cmd = 0x01 then
        (if length payload_v \<ge> 20 then
           (case unpack_5f (py_slice payload_v 0 20) of
              (v0, v1, v2, v3, v4) \<Rightarrow>
                add_event (clk 0) ''SERIAL'' msg_env_received ''INFO''
                  (s\<lparr>data := (data s)\<lparr>temperature := v0, humidity := v1, co2 := v2,
                                       pm25 := Some v3, smoke := v4\<rparr>\<rparr>))
         else s)
      else if cmd = 0x02 then
        (if length payload_v \<ge> 1 then
           (let device_byte = hd payload_v in
            add_event (clk 0) ''SERIAL'' msg_dev_received ''INFO''
              (s\<lparr>device_states := (device_states s)
                   \<lparr>heating := (device_byte AND 0x01 \<noteq> 0),
                    cooling := (device_byte AND 0x02 \<noteq> 0),
                    humidify := (device_byte AND 0x04 \<noteq> 0),
                    dehumidify := (device_byte AND 0x08 \<noteq> 0),
                    ventilation := (device_byte AND 0x10 \<noteq> 0),
                    close_vent := (device_byte AND 0x20 \<noteq> 0)\<rparr>\<rparr>))
         else s)
      else s)"

text \<open>
  \<open>self.device_states.items()\<close> in insertion order, and the assignment
  \<open>device_states[device] = v\<close> to a key that is present.
\<close>

definition device_items :: "DeviceStates \<Rightarrow> (string \<times> bool) list" where
  "device_items ds =
     [(''heating'', heating ds), (''cooling'', cooling ds), (''humidify'', humidify ds),
      (''dehumidify'', dehumidify ds), (''ventilation'', ventilation ds),
      (''close_vent'', close_vent ds)]"

definition device_set :: "string \<Rightarrow> bool \<Rightarrow> DeviceStates \<Rightarrow> DeviceStates" where
  "device_set dev v ds =
     (if dev = ''heating'' then ds\<lparr>heating := v\<rparr>
      else if dev = ''cooling'' then ds\<lparr>cooling := v\<rparr>
      else if dev = ''humidify'' then ds\<lparr>humidify := v\<rparr>
      else if dev = ''dehumidify'' then ds\<lparr>dehumidify := v\<rparr>
      else if dev = ''ventilation'' then ds\<lparr>ventilation := v\<rparr>
      else if dev = ''close_vent'' then ds\<lparr>close_vent := v\<rparr>
      else ds)"

definition device_map :: "(string \<times> int) list" where
  "device_map =
     [(''heating'', 0x01), (''cooling'', 0x02), (''humidify'', 0x04),
      (''dehumidify'', 0x08), (''ventilation'', 0x10), (''close_vent'', 0x20)]"

text \<open>
  The loop of \<open>send_device_command\<close> over \<open>self.device_states.items()\<close>, which builds
  \<open>current_state\<close> from 0.
\<close>

definition build_current_state :: "string \<Rightarrow> bool \<Rightarrow> DeviceStates \<Rightarrow> int" where
  "build_current_state device state_v ds =
     fold (\<lambda>(dev, is_on) current_state.
             (let is_on1 = (if dev = device then state_v else is_on) in
              case map_of device_map dev of
                Some m \<Rightarrow> if is_on1 then current_state OR m else current_state
              | None \<Rightarrow> current_state))
          (device_items ds) 0"

definition send_device_command :: "serial_env \<Rightarrow> (nat \<Rightarrow> string) \<Rightarrow> string \<Rightarrow> bool \<Rightarrow> EnvironmentData \<Rightarrow> EnvironmentData \<times> (bool \<times> string)" where
  "send_device_command env clk device state_v s =
     (if \<not> connected (serial_manager s) then (s, (False, msg_serial_not_connected))
      else
        (case map_of device_map device of
           None \<Rightarrow> (s, (False, msg_unknown_device))
         | Some _ \<Rightarrow>
             (let current_state = build_current_state device state_v (device_states s) in
              case bytes_of_ints [current_state] of
                Inl e \<Rightarrow> (s, (False, msg_command_failed @ error_text e))
              | Inr payload_v \<Rightarrow>
                  (case send_command env 0x03 payload_v (serial_manager s) of
                     (m, (success, msg)) \<Rightarrow>
                       (let s1 = s\<lparr>serial_manager := m\<rparr>;
                            s2 = (if success
                                  then add_event (clk 0) ''SERIAL''
                                         (msg_command_sent @ device @ ''='' @
                                          (if state_v then ''True'' else ''False'')) ''INFO'' s1
                                  else s1)
                        in (s2, (success, msg)))))))"

section \<open>The route /api/control (control_device, lines 450-476)\<close>

text \<open>
  The request body is a JSON value. \<open>data.get(key)\<close> needs a dictionary and gives
  \<open>None\<close> for a missing key; \<open>device in env_data.device_states\<close> raises TypeError for a
  list or a dictionary, which cannot be hashed, and is false for every value that is
  not a string. The response is the dictionary passed to \<open>jsonify\<close>.
\<close>

datatype json = JNull | JBool bool | JNum real | JStr string | JList "json list"
  | JDict "(string \<times> json) list"

datatype control_response = ControlSuccess string bool | ControlInvalid

definition json_get :: "json \<Rightarrow> string \<Rightarrow> py_error + json" where
  "json_get body k =
     (case body of
        JDict kvs \<Rightarrow> (case map_of kvs k of None \<Rightarrow> Inr JNull | Some v \<Rightarrow> Inr v)
      | _ \<Rightarrow> Inl AttributeError)"

definition device_names :: "(string \<times> string) list" where
  "device_names =
     [(''heating'', name_heating), (''cooling'', name_cooling), (''humidify'', name_humidify),
      (''dehumidify'', name_dehumidify), (''ventilation'', name_ventilation),
      (''close_vent'', name_close_vent)]"

definition control_device :: "(nat \<Rightarrow> string) \<Rightarrow> json \<Rightarrow> EnvironmentData \<Rightarrow> py_error + (EnvironmentData \<times> control_response)" where
  "control_device clk body s =
     (case json_get body ''device'' of
        Inl e \<Rightarrow> Inl e
      | Inr device \<Rightarrow>
          (case json_get body ''action'' of
             Inl e \<Rightarrow> Inl e
           | Inr action \<Rightarrow>
               (case device of
                  JList _ \<Rightarrow> Inl TypeError
                | JDict _ \<Rightarrow> Inl TypeError
                | JStr dev \<Rightarrow>
                    (case map_of (device_items (device_states s)) dev of
                       None \<Rightarrow> Inr (s, ControlInvalid)
                     | Some old_state \<Rightarrow>
                         (let new_state = (action = JStr ''on'');
                              s1 = s\<lparr>device_states := device_set dev new_state (device_states s)\<rparr>;
                              s2 = (if old_state \<noteq> new_state then
                                      (let device_name = (case map_of device_names dev of
                                                            Some n \<Rightarrow> n | None \<Rightarrow> dev);
                                           action_text = (if action = JStr ''on'' then txt_start
                                                          else txt_stop)
                                       in add_event (clk 0) ''MANUAL''
                                            (txt_manual @ action_text @ device_name) ''INFO'' s1)
                                    else s1)
                          in Inr (s2, ControlSuccess dev new_state)))
                | _ \<Rightarrow> Inr (s, ControlInvalid))))"

section \<open>Vocabulary of the properties\<close>

text \<open>
  Sequences of calls. A tick is a call of \<open>auto_control\<close>; between two ticks the sample
  and the thresholds may have been replaced (by the simulation loop, a sensor frame or
  a threshold update), so every tick of a sequence comes with the sample and the
  thresholds in force when it runs.
\<close>

definition mutual_exclusion :: "DeviceStates \<Rightarrow> bool" where
  "mutual_exclusion ds = (\<not> (heating ds \<and> cooling ds) \<and> \<not> (humidify ds \<and> dehumidify ds))"

fun ticks :: "((nat \<Rightarrow> string) \<times> Sample \<times> Thresholds) list \<Rightarrow> EnvironmentData \<Rightarrow> EnvironmentData" where
  "ticks [] s = s"
| "ticks ((clk, d, th) # rest) s = ticks rest (auto_control clk (s\<lparr>data := d, thresholds := th\<rparr>))"

text \<open>
  The three mutators of the device states: a tick, a decoded device-state frame
  (\<open>on_serial_data\<close> with command 0x02) and a request to \<open>/api/control\<close>. A request
  that raises leaves the state as it was.
\<close>

datatype mutator =
    Tick "nat \<Rightarrow> string" Sample Thresholds
  | DeviceFrame "nat \<Rightarrow> string" "byte list"
  | Manual "nat \<Rightarrow> string" json

fun apply_mutator :: "mutator \<Rightarrow> EnvironmentData \<Rightarrow> EnvironmentData" where
  "apply_mutator (Tick clk d th) s = auto_control clk (s\<lparr>data := d, thresholds := th\<rparr>)"
| "apply_mutator (DeviceFrame clk payload_v) s = on_serial_data clk 0x02 payload_v s"
| "apply_mutator (Manual clk body) s =
     (case control_device clk body s of Inl e \<Rightarrow> s | Inr (s1, response) \<Rightarrow> s1)"

fun run :: "mutator list \<Rightarrow> EnvironmentData \<Rightarrow> EnvironmentData" where
  "run [] s = s"
| "run (m # ms) s = run ms (apply_mutator m s)"

text \<open>
  \<open>paired_on dev ds\<close>: the device paired with \<open>dev\<close> (heating with cooling, humidify with
  dehumidify) is on. A mutator is \<open>exclusive\<close> in a state when it does not ask for both
  devices of a pair: a frame whose status byte has not both bits of a pair, a manual
  request that does not switch a device on while its paired device is on.
\<close>

definition paired_on :: "string \<Rightarrow> DeviceStates \<Rightarrow> bool" where
  "paired_on dev ds =
     (if dev = ''heating'' then cooling ds
      else if dev = ''cooling'' then heating ds
      else if dev = ''humidify'' then dehumidify ds
      else if dev = ''dehumidify'' then humidify ds
      else False)"

fun exclusive :: "EnvironmentData \<Rightarrow> mutator \<Rightarrow> bool" where
  "exclusive s (Tick clk d th) = True"
| "exclusive s (DeviceFrame clk payload_v) =
     (case payload_v of
        [] \<Rightarrow> True
      | b # _ \<Rightarrow> \<not> (b AND 0x01 \<noteq> 0 \<and> b AND 0x02 \<noteq> 0) \<and> \<not> (b AND 0x04 \<noteq> 0 \<and> b AND 0x08 \<noteq> 0))"
| "exclusive s (Manual clk body) =
     (case (json_get body ''device'', json_get body ''action'') of
        (Inr (JStr dev), Inr action) \<Rightarrow>
          \<not> (action = JStr ''on'' \<and> paired_on dev (device_states s))
      | _ \<Rightarrow> True)"

fun exclusive_run :: "EnvironmentData \<Rightarrow> mutator list \<Rightarrow> bool" where
  "exclusive_run s [] = True"
| "exclusive_run s (m # ms) = (exclusive s m \<and> exclusive_run (apply_mutator m s) ms)"

text \<open>
  The status byte in the specification's words: the OR of the bit of every device whose
  effective state is true, the effective state of the toggled device being the desired
  state and that of every other device its recorded state.
\<close>

definition effective_state :: "string \<Rightarrow> bool \<Rightarrow> string \<Rightarrow> bool \<Rightarrow> bool" where
  "effective_state device desired dev recorded = (if dev = device then desired else recorded)"

definition aggregate_status :: "string \<Rightarrow> bool \<Rightarrow> DeviceStates \<Rightarrow> int" where
  "aggregate_status device desired ds =
     (if effective_state device desired ''heating'' (heating ds) then 0x01 else 0) OR
     (if effective_state device desired ''cooling'' (cooling ds) then 0x02 else 0) OR
     (if effective_state device desired ''humidify'' (humidify ds) then 0x04 else 0) OR
     (if effective_state device desired ''dehumidify'' (dehumidify ds) then 0x08 else 0) OR
     (if effective_state device desired ''ventilation'' (ventilation ds) then 0x10 else 0) OR
     (if effective_state device desired ''close_vent'' (close_vent ds) then 0x20 else 0)"

text \<open>
  The command-0x03 frame whose single payload byte is the status \<open>b\<close>, written out
  field by field: SOF, LEN = 2, CMD = 3, the byte, the checksum, EOF.
\<close>

definition status_frame :: "int \<Rightarrow> byte list" where
  "status_frame b = [SOF, 0x02, 0x03, word_of_int b, calc_cs [0x02, 0x03, word_of_int b], EOF]"

text \<open>
  A frame with its checksum byte, the last but one, replaced.
\<close>

definition corrupt_checksum :: "byte list \<Rightarrow> byte \<Rightarrow> byte list" where
  "corrupt_checksum frame bad = frame[length frame - 2 := bad]"

text \<open>Concrete surroundings for the examples: a clock, and a host without pyserial.\<close>

definition clock0 :: "nat \<Rightarrow> string" where
  "clock0 i = ''12:00:00''"

definition no_open_error :: "string \<Rightarrow> int \<Rightarrow> string option" where
  "no_open_error port baudrate = None"

definition no_write_error :: "SerialPort \<Rightarrow> byte list \<Rightarrow> string option" where
  "no_write_error s frame = None"

definition env_without_serial :: serial_env where
  "env_without_serial =
     \<lparr>SERIAL_AVAILABLE = False, comports = None, open_error = no_open_error,
      write_error = no_write_error\<rparr>"

definition env_with_serial :: serial_env where
  "env_with_serial =
     \<lparr>SERIAL_AVAILABLE = True, comports = Some [''COM1''], open_error = no_open_error,
      write_error = no_write_error\<rparr>"

text \<open>
  The state of the command-byte example: ventilation on, every other device off, the
  serial port COM1 connected.
\<close>

definition example_state :: EnvironmentData where
  "example_state =
     EnvironmentData_init
       \<lparr>device_states := (device_states EnvironmentData_init)\<lparr>ventilation := True\<rparr>,
        serial_manager := fst (connect env_with_serial ''COM1'' 115200 SerialManager_init)\<rparr>"

definition example_port :: SerialPort where
  "example_port = \<lparr>port_name = ''COM1'', baud = 115200, is_open = True, written = []\<rparr>"

text \<open>A request body of /api/control.\<close>

definition control_request :: "string \<Rightarrow> string \<Rightarrow> json" where
  "control_request device action = JDict [(''device'', JStr device), (''action'', JStr action)]"

section \<open>The parser decodes what the codec encodes\<close>

lemma feed_all_append:
  "feed_all p (xs @ ys) =
     (case feed_all p xs of
        Inl e \<Rightarrow> Inl e
      | Inr (p1, rs1) \<Rightarrow>
          (case feed_all p1 ys of
             Inl e \<Rightarrow> Inl e
           | Inr (p2, rs2) \<Rightarrow> Inr (p2, rs1 @ rs2)))"
  by (induction xs arbitrary: p) (auto split: sum.splits prod.splits)

lemma feed_payload_more:
  "state p = 21 \<Longrightarrow> int (length (payload p)) + 1 < expected_payload p \<Longrightarrow>
   feed p b = Inr (p\<lparr>payload := payload p @ [b]\<rparr>, None)"
  by (simp add: feed_def Let_def)

lemma feed_payload_last:
  "state p = 21 \<Longrightarrow> expected_payload p \<le> int (length (payload p)) + 1 \<Longrightarrow>
   feed p b = Inr (p\<lparr>payload := payload p @ [b], buf := buf p @ payload p @ [b], state := 3\<rparr>, None)"
  by (simp add: feed_def Let_def)

lemma feed_all_payload:
  "state p = 21 \<Longrightarrow> xs \<noteq> [] \<Longrightarrow>
   expected_payload p = int (length (payload p)) + int (length xs) \<Longrightarrow>
   feed_all p xs =
     Inr (p\<lparr>payload := payload p @ xs, buf := buf p @ payload p @ xs, state := 3\<rparr>,
          replicate (length xs) None)"
proof (induction xs arbitrary: p)
  case Nil
  then show ?case by simp
next
  case (Cons x xs)
  show ?case
  proof (cases "xs = []")
    case True
    with Cons.prems show ?thesis by (simp add: feed_payload_last)
  next
    case False
    let ?p1 = "p\<lparr>payload := payload p @ [x]\<rparr>"
    from Cons.prems False have more: "int (length (payload p)) + 1 < expected_payload p"
      by (cases xs) auto
    have step: "feed p x = Inr (?p1, None)"
      using Cons.prems(1) more by (rule feed_payload_more)
    have "feed_all ?p1 xs =
      Inr (?p1\<lparr>payload := payload ?p1 @ xs, buf := buf ?p1 @ payload ?p1 @ xs, state := 3\<rparr>,
           replicate (length xs) None)"
      using Cons.prems False by (intro Cons.IH) auto
    with step show ?thesis by simp
  qed
qed


lemma uint_len_byte:
  "n \<le> 254 \<Longrightarrow> uint (word_of_int (1 + int n) :: byte) = 1 + int n"
  unfolding uint_word_of_int_eq by (rule take_bit_int_eq_self) simp_all

lemma uint_cmd_byte:
  "0 \<le> cmd \<Longrightarrow> cmd \<le> 255 \<Longrightarrow> uint (word_of_int cmd :: byte) = cmd"
  unfolding uint_word_of_int_eq by (rule take_bit_int_eq_self) simp_all

lemma pack_frame_ok:
  "0 \<le> cmd \<Longrightarrow> cmd \<le> 255 \<Longrightarrow> length pl \<le> 254 \<Longrightarrow>
   pack_frame cmd pl =
     Inr ([SOF, word_of_int (1 + int (length pl)), word_of_int cmd] @ pl @
          [calc_cs ([word_of_int (1 + int (length pl)), word_of_int cmd] @ pl), EOF])"
  by (simp add: pack_frame_def bytes_of_ints_def Let_def)

lemma feed_all_header_empty:
  "state p = 0 \<Longrightarrow>
   feed_all p [SOF, 1, c] = Inr (p\<lparr>length_p := 1, buf := [1, c], state := 3\<rparr>, [None, None, None])"
  by (simp add: feed_def Let_def)

lemma feed_all_header_payload:
  "state p = 0 \<Longrightarrow> uint l \<noteq> 1 \<Longrightarrow>
   feed_all p [SOF, l, c] =
     Inr (p\<lparr>length_p := uint l, buf := [l, c], state := 21,
            expected_payload := uint l - 1, payload := []\<rparr>, [None, None, None])"
  by (simp add: feed_def Let_def)

lemma py_slice_payload:
  "py_slice (l # c # pl) 2 (2 + int (length pl)) = pl"
  by (simp add: py_slice_def slice_index_def Let_def)

lemma feed_all_trailer:
  "state p = 3 \<Longrightarrow> buf p = l # c # pl \<Longrightarrow> uint l = 1 + int (length pl) \<Longrightarrow>
   feed_all p [calc_cs (l # c # pl), EOF] =
     Inr (p\<lparr>state := 0\<rparr>, [None, Some (uint c, pl)])"
  by (simp add: feed_def Let_def getitem_def py_slice_payload)

lemma feed_all_frame:
  assumes st: "state p = 0" and len: "length pl \<le> 254"
    and l: "l = word_of_int (1 + int (length pl))"
  shows "\<exists>p'. feed_all p ([SOF, l, c] @ pl @ [calc_cs ([l, c] @ pl), EOF]) =
           Inr (p', replicate (length pl + 4) None @ [Some (uint c, pl)]) \<and> state p' = 0"
proof -
  have ul: "uint l = 1 + int (length pl)"
    unfolding l using len by (rule uint_len_byte)
  show ?thesis
  proof (cases "pl = []")
    case True
    then have l1: "l = 1" using l by simp
    let ?p3 = "p\<lparr>length_p := 1, buf := [1, c], state := 3\<rparr>"
    have h: "feed_all p [SOF, 1, c] = Inr (?p3, [None, None, None])"
      using st by (rule feed_all_header_empty)
    have t: "feed_all ?p3 [calc_cs (1 # c # []), EOF] = Inr (?p3\<lparr>state := 0\<rparr>, [None, Some (uint c, [])])"
      by (rule feed_all_trailer) simp_all
    have "feed_all p ([SOF, 1, c] @ [calc_cs [1, c], EOF]) =
            Inr (?p3\<lparr>state := 0\<rparr>, [None, None, None, None, Some (uint c, [])])"
      unfolding feed_all_append using h t by (simp del: feed_all.simps)
    with True l1 show ?thesis by (simp add: numeral_Bit0 numeral_3_eq_3 del: feed_all.simps)
  next
    case False
    let ?p21 = "p\<lparr>length_p := uint l, buf := [l, c], state := 21,
                   expected_payload := uint l - 1, payload := []\<rparr>"
    let ?p3 = "?p21\<lparr>payload := payload ?p21 @ pl, buf := buf ?p21 @ payload ?p21 @ pl, state := 3\<rparr>"
    from False ul have ne: "uint l \<noteq> 1" by simp
    have h: "feed_all p [SOF, l, c] = Inr (?p21, [None, None, None])"
      using st ne by (rule feed_all_header_payload)
    have m: "feed_all ?p21 pl = Inr (?p3, replicate (length pl) None)"
      using False ul by (intro feed_all_payload) simp_all
    have t: "feed_all ?p3 [calc_cs (l # c # pl), EOF] = Inr (?p3\<lparr>state := 0\<rparr>, [None, Some (uint c, pl)])"
      using ul by (intro feed_all_trailer) simp_all
    have "feed_all p ([SOF, l, c] @ pl @ [calc_cs ([l, c] @ pl), EOF]) =
            Inr (?p3\<lparr>state := 0\<rparr>, [None, None, None] @ replicate (length pl) None @ [None, Some (uint c, pl)])"
      unfolding feed_all_append using h m t by (simp del: feed_all.simps)
    also have "[None, None, None] @ replicate (length pl) None @ [None, Some (uint c, pl)] =
           replicate (length pl + 4) None @ [Some (uint c, pl)]"
      by (simp add: numeral_Bit0 numeral_3_eq_3 replicate_append_same)
    finally show ?thesis by (simp del: feed_all.simps)
  qed
qed


lemma byte_and_ff: "(x :: byte) AND 0xFF = x"
proof -
  have "(0xFF :: byte) = - 1" by simp
  then show ?thesis by (simp only: and.right_neutral)
qed

lemma calc_cs_fold: "calc_cs bs = fold (\<lambda>b cs. cs XOR b) bs 0"
  by (simp add: calc_cs_def byte_and_ff)

lemma feed_all_bad_trailer:
  "state p = 3 \<Longrightarrow> bad \<noteq> calc_cs (buf p) \<Longrightarrow>
   feed_all p [bad, EOF] = Inr (p\<lparr>state := 0\<rparr>, [None, None])"
  by (auto simp add: feed_def Let_def SOF_def EOF_def)

lemma update_checksum:
  "(xs @ [a, b])[length xs := v] = xs @ [v, b]"
  by (simp add: list_update_append)


lemma pad_replicate:
  "[x, x, x] @ replicate n x @ [x, x] = replicate (n + 5) x"
proof -
  have "[x, x, x] @ replicate n x @ [x, x] = replicate 3 x @ replicate n x @ replicate 2 x"
    by (simp add: numeral_eq_Suc)
  also have "\<dots> = replicate (3 + (n + 2)) x"
    by (simp only: replicate_add)
  finally show ?thesis by (simp add: add.commute)
qed

lemma feed_all_corrupted:
  assumes st: "state p = 0" and len: "length pl \<le> 254"
    and l: "l = word_of_int (1 + int (length pl))"
    and bad: "bad \<noteq> calc_cs ([l, c] @ pl)"
  shows "\<exists>p'. feed_all p ([SOF, l, c] @ pl @ [bad, EOF]) =
           Inr (p', replicate (length pl + 5) None) \<and> state p' = 0"
proof -
  have ul: "uint l = 1 + int (length pl)"
    unfolding l using len by (rule uint_len_byte)
  show ?thesis
  proof (cases "pl = []")
    case True
    then have l1: "l = 1" using l by simp
    let ?p3 = "p\<lparr>length_p := 1, buf := [1, c], state := 3\<rparr>"
    have h: "feed_all p [SOF, 1, c] = Inr (?p3, [None, None, None])"
      using st by (rule feed_all_header_empty)
    have t: "feed_all ?p3 [bad, EOF] = Inr (?p3\<lparr>state := 0\<rparr>, [None, None])"
      using bad True l1 by (intro feed_all_bad_trailer) simp_all
    have "feed_all p ([SOF, 1, c] @ [bad, EOF]) =
            Inr (?p3\<lparr>state := 0\<rparr>, [None, None, None, None, None])"
      unfolding feed_all_append using h t by (simp del: feed_all.simps)
    with True l1 show ?thesis
      by (simp add: numeral_eq_Suc del: feed_all.simps)
  next
    case False
    let ?p21 = "p\<lparr>length_p := uint l, buf := [l, c], state := 21,
                   expected_payload := uint l - 1, payload := []\<rparr>"
    let ?p3 = "?p21\<lparr>payload := payload ?p21 @ pl, buf := buf ?p21 @ payload ?p21 @ pl, state := 3\<rparr>"
    from False ul have ne: "uint l \<noteq> 1" by simp
    have h: "feed_all p [SOF, l, c] = Inr (?p21, [None, None, None])"
      using st ne by (rule feed_all_header_payload)
    have m: "feed_all ?p21 pl = Inr (?p3, replicate (length pl) None)"
      using False ul by (intro feed_all_payload) simp_all
    have t: "feed_all ?p3 [bad, EOF] = Inr (?p3\<lparr>state := 0\<rparr>, [None, None])"
      using bad by (intro feed_all_bad_trailer) simp_all
    have "feed_all p ([SOF, l, c] @ pl @ [bad, EOF]) =
            Inr (?p3\<lparr>state := 0\<rparr>, [None, None, None] @ replicate (length pl) None @ [None, None])"
      unfolding feed_all_append using h m t by (simp del: feed_all.simps)
    also have "[None, None, None] @ replicate (length pl) None @ [None, None] =
           replicate (length pl + 5) (None :: (int \<times> byte list) option)"
      by (rule pad_replicate)
    finally show ?thesis by (simp del: feed_all.simps)
  qed
qed

text \<open>
  Claim C1 (round trip of the frame codec). For every command \<open>cmd\<close> in 0..255 and
  every payload of at most 254 bytes, \<open>pack_frame\<close> returns a frame, and feeding that
  frame byte by byte to a fresh parser returns \<open>None\<close> on every byte but the last and
  \<open>(cmd, payload)\<close> on the last.
\<close>

theorem frame_roundtrip:
  assumes "0 \<le> cmd" and "cmd \<le> 255" and "length pl \<le> 254"
  shows "\<exists>frame p'. pack_frame cmd pl = Inr frame \<and>
           feed_all FrameParser_init frame =
             Inr (p', replicate (length frame - 1) None @ [Some (cmd, pl)])"
proof -
  let ?l = "word_of_int (1 + int (length pl)) :: byte"
  let ?c = "word_of_int cmd :: byte"
  let ?frame = "[SOF, ?l, ?c] @ pl @ [calc_cs ([?l, ?c] @ pl), EOF]"
  have pk: "pack_frame cmd pl = Inr ?frame"
    using assms by (rule pack_frame_ok)
  have uc: "uint ?c = cmd"
    using assms(1,2) by (rule uint_cmd_byte)
  have "state FrameParser_init = 0"
    by (simp add: FrameParser_init_def)
  from feed_all_frame [OF this assms(3) refl, of ?c] obtain p' where
    "feed_all FrameParser_init ?frame = Inr (p', replicate (length pl + 4) None @ [Some (uint ?c, pl)])"
    by blast
  moreover have "length ?frame - 1 = length pl + 4" by simp
  ultimately have "feed_all FrameParser_init ?frame =
      Inr (p', replicate (length ?frame - 1) None @ [Some (cmd, pl)])"
    using uc by (simp only:)
  with pk show ?thesis by blast
qed

text \<open>The round trip at command 3 with the one-byte payload 0x12.\<close>

theorem frame_roundtrip_witness:
  "(0::int) \<le> 3 \<and> (3::int) \<le> 255 \<and> length [0x12 :: byte] \<le> 254 \<and>
   (\<exists>frame p'. pack_frame 3 [0x12] = Inr frame \<and>
      feed_all FrameParser_init frame =
        Inr (p', replicate (length frame - 1) None @ [Some (3, [0x12])]))"
  using frame_roundtrip [of 3 "[0x12]"] by simp

text \<open>
  Claim C2 (resynchronisation). A valid frame whose checksum byte has been replaced by
  any other value, followed at once by a second valid frame, fed to a fresh parser:
  every call returns \<open>None\<close> except the last, which returns the second frame's
  \<open>(cmd, payload)\<close>. So exactly one frame is decoded over the whole sequence.
\<close>

theorem parser_resync:
  assumes c1: "0 \<le> cmd1" "cmd1 \<le> 255" and l1: "length pl1 \<le> 254"
    and c2: "0 \<le> cmd2" "cmd2 \<le> 255" and l2: "length pl2 \<le> 254"
    and f1: "pack_frame cmd1 pl1 = Inr frame1"
    and f2: "pack_frame cmd2 pl2 = Inr frame2"
    and bad: "bad \<noteq> calc_cs ([word_of_int (1 + int (length pl1)), word_of_int cmd1] @ pl1)"
  shows "\<exists>p'. feed_all FrameParser_init (corrupt_checksum frame1 bad @ frame2) =
           Inr (p', replicate (length frame1 + length frame2 - 1) None @ [Some (cmd2, pl2)])"
proof -
  let ?l1 = "word_of_int (1 + int (length pl1)) :: byte"
  let ?c1 = "word_of_int cmd1 :: byte"
  let ?l2 = "word_of_int (1 + int (length pl2)) :: byte"
  let ?c2 = "word_of_int cmd2 :: byte"
  let ?bad1 = "[SOF, ?l1, ?c1] @ pl1 @ [bad, EOF]"
  let ?fr2 = "[SOF, ?l2, ?c2] @ pl2 @ [calc_cs ([?l2, ?c2] @ pl2), EOF]"
  have e1: "frame1 = ([SOF, ?l1, ?c1] @ pl1) @ [calc_cs ([?l1, ?c1] @ pl1), EOF]"
    using pack_frame_ok [OF c1 l1] f1 by simp
  have e2: "frame2 = ?fr2"
    using pack_frame_ok [OF c2 l2] f2 by simp
  have n1: "length frame1 - 2 = length ([SOF, ?l1, ?c1] @ pl1)"
    unfolding e1 by simp
  have cor: "corrupt_checksum frame1 bad = ?bad1"
    unfolding corrupt_checksum_def n1 unfolding e1 update_checksum by simp
  have uc: "uint ?c2 = cmd2"
    using c2 by (rule uint_cmd_byte)
  have "state FrameParser_init = 0"
    by (simp add: FrameParser_init_def)
  from feed_all_corrupted [OF this l1 refl bad] obtain p1 where
    a: "feed_all FrameParser_init ?bad1 = Inr (p1, replicate (length pl1 + 5) None)"
    and s1: "state p1 = 0"
    by blast
  from feed_all_frame [OF s1 l2 refl, of ?c2] obtain p2 where
    b: "feed_all p1 ?fr2 = Inr (p2, replicate (length pl2 + 4) None @ [Some (uint ?c2, pl2)])"
    by blast
  have "feed_all FrameParser_init (?bad1 @ ?fr2) =
          Inr (p2, replicate (length pl1 + 5) None @ replicate (length pl2 + 4) None @ [Some (cmd2, pl2)])"
    using feed_all_append [of FrameParser_init ?bad1 ?fr2]
    by (simp only: a b uc sum.case prod.case)
  moreover have "length frame1 + length frame2 - 1 = (length pl1 + 5) + (length pl2 + 4)"
    unfolding e1 e2 by simp
  ultimately have "feed_all FrameParser_init (corrupt_checksum frame1 bad @ frame2) =
          Inr (p2, replicate (length frame1 + length frame2 - 1) None @ [Some (cmd2, pl2)])"
    unfolding cor e2 by (simp only: replicate_add append_assoc)
  then show ?thesis by blast
qed

text \<open>
  Resynchronisation at the frames of (1, [0x07]) and (3, [0x12]), the first checksum
  0x04 replaced by 0xFF.
\<close>

theorem parser_resync_witness:
  "\<exists>p'. feed_all FrameParser_init
           (corrupt_checksum [0xAA, 0x02, 0x01, 0x07, 0x04, 0x55] 0xFF @ [0xAA, 0x02, 0x03, 0x12, 0x13, 0x55]) =
         Inr (p', [None, None, None, None, None, None, None, None, None, None, None,
                   Some (3, [0x12])])"
proof -
  have f1: "pack_frame 1 [0x07] = Inr [0xAA, 0x02, 0x01, 0x07, 0x04, 0x55]"
    by (simp add: pack_frame_def bytes_of_ints_def calc_cs_def SOF_def EOF_def)
  have f2: "pack_frame 3 [0x12] = Inr [0xAA, 0x02, 0x03, 0x12, 0x13, 0x55]"
    by (simp add: pack_frame_def bytes_of_ints_def calc_cs_def SOF_def EOF_def)
  have bad: "(0xFF :: byte) \<noteq> calc_cs ([word_of_int (1 + int (length [0x07 :: byte])), word_of_int 1] @ [0x07])"
    by (simp add: calc_cs_def)
  show ?thesis
    using parser_resync [OF _ _ _ _ _ _ f1 f2 bad] by simp
qed

text \<open>
  Claim C9 (a length byte of zero). On the stream 0xAA, 0x00, c, x, cs, 0x55 with
  \<open>cs = 0x00 XOR c XOR x\<close> the parser computes the expected payload length - 1, takes
  \<open>x\<close> as one payload byte, appends it to the buffer the checksum is computed over, and
  on the terminator returns \<open>(c, empty payload)\<close>: six bytes, where the frame with length
  byte 1 gives the same result on five.
\<close>

theorem zero_length_field:
  "feed_all FrameParser_init [0xAA, 0x00, c, x] =
     Inr (\<lparr>state = 3, buf = [0x00, c, x], length_p = 0, expected_payload = - 1, payload = [x]\<rparr>,
          [None, None, None, None]) \<and>
   (\<exists>p'. feed_all FrameParser_init [0xAA, 0x00, c, x, 0x00 XOR c XOR x, 0x55] =
     Inr (p', [None, None, None, None, None, Some (uint c, [])])) \<and>
   (\<exists>p'. feed_all FrameParser_init [0xAA, 0x01, c, 0x01 XOR c, 0x55] =
     Inr (p', [None, None, None, None, Some (uint c, [])]))"
  by (simp add: feed_def FrameParser_init_def SOF_def EOF_def Let_def calc_cs_fold getitem_def
        py_slice_def slice_index_def)

section \<open>Automatic control: exclusion, idempotence, frame\<close>

lemma log_changes_fields:
  "device_states (log_changes clk i cs s) = device_states s"
  "data (log_changes clk i cs s) = data s"
  "thresholds (log_changes clk i cs s) = thresholds s"
  "serial_manager (log_changes clk i cs s) = serial_manager s"
  by (induction cs arbitrary: i s) (simp_all add: add_event_def Let_def)

lemma add_event_thresholds:
  "add_event ts et msg lvl (s\<lparr>thresholds := th\<rparr>) = (add_event ts et msg lvl s)\<lparr>thresholds := th\<rparr>"
  by (simp add: add_event_def Let_def)

lemma log_changes_thresholds:
  "log_changes clk i cs (s\<lparr>thresholds := th\<rparr>) = (log_changes clk i cs s)\<lparr>thresholds := th\<rparr>"
  by (induction cs arbitrary: i s) (simp_all add: add_event_thresholds)

text \<open>Each block changes only its own flags.\<close>

lemma temperature_control_frame:
  "humidify (fst (temperature_control d th x)) = humidify (fst x)"
  "dehumidify (fst (temperature_control d th x)) = dehumidify (fst x)"
  "ventilation (fst (temperature_control d th x)) = ventilation (fst x)"
  "close_vent (fst (temperature_control d th x)) = close_vent (fst x)"
  by (cases x; simp add: temperature_control_def Let_def split: prod.splits)+

lemma humidity_control_frame:
  "heating (fst (humidity_control d th x)) = heating (fst x)"
  "cooling (fst (humidity_control d th x)) = cooling (fst x)"
  "ventilation (fst (humidity_control d th x)) = ventilation (fst x)"
  "close_vent (fst (humidity_control d th x)) = close_vent (fst x)"
  by (cases x; simp add: humidity_control_def Let_def split: prod.splits)+

lemma co2_control_frame:
  "heating (fst (co2_control d th x)) = heating (fst x)"
  "cooling (fst (co2_control d th x)) = cooling (fst x)"
  "humidify (fst (co2_control d th x)) = humidify (fst x)"
  "dehumidify (fst (co2_control d th x)) = dehumidify (fst x)"
  "close_vent (fst (co2_control d th x)) = close_vent (fst x)"
  by (cases x; simp add: co2_control_def)+

text \<open>Each block keeps its own pair exclusive.\<close>

lemma temperature_control_exclusive:
  "\<not> (heating (fst x) \<and> cooling (fst x)) \<Longrightarrow>
   \<not> (heating (fst (temperature_control d th x)) \<and> cooling (fst (temperature_control d th x)))"
  by (cases x) (simp add: temperature_control_def Let_def split: prod.splits)

lemma humidity_control_exclusive:
  "\<not> (humidify (fst x) \<and> dehumidify (fst x)) \<Longrightarrow>
   \<not> (humidify (fst (humidity_control d th x)) \<and> dehumidify (fst (humidity_control d th x)))"
  by (cases x) (simp add: humidity_control_def Let_def split: prod.splits)

lemma auto_control_device_states:
  "device_states (auto_control clk s) =
     fst (co2_control (data s) (thresholds s)
            (humidity_control (data s) (thresholds s)
              (temperature_control (data s) (thresholds s) (device_states s, []))))"
  by (simp add: auto_control_def log_changes_fields split: prod.splits)

lemma auto_control_exclusive:
  assumes "mutual_exclusion (device_states s)"
  shows "mutual_exclusion (device_states (auto_control clk s))"
proof -
  let ?t = "temperature_control (data s) (thresholds s) (device_states s, [])"
  let ?h = "humidity_control (data s) (thresholds s) ?t"
  from assms have a: "\<not> (heating (fst ?t) \<and> cooling (fst ?t))"
    by (intro temperature_control_exclusive) (simp add: mutual_exclusion_def)
  from assms have "\<not> (humidify (fst ?t) \<and> dehumidify (fst ?t))"
    by (simp add: temperature_control_frame mutual_exclusion_def)
  then have b: "\<not> (humidify (fst ?h) \<and> dehumidify (fst ?h))"
    by (rule humidity_control_exclusive)
  show ?thesis
    unfolding auto_control_device_states mutual_exclusion_def
    using a b by (simp add: co2_control_frame humidity_control_frame)
qed

text \<open>
  Claim C4 (mutual exclusion under ticks). From the initial state, after any sequence
  of calls of \<open>auto_control\<close>, whatever the samples, the thresholds and the clock,
  heating and cooling are not both on and humidify and dehumidify are not both on.
\<close>

theorem tick_mutual_exclusion:
  "mutual_exclusion (device_states (ticks ts EnvironmentData_init))"
proof -
  have "mutual_exclusion (device_states s) \<Longrightarrow> mutual_exclusion (device_states (ticks ts s))" for s
  proof (induction ts arbitrary: s)
    case Nil
    then show ?case by simp
  next
    case (Cons t ts)
    obtain clk d th where t: "t = (clk, d, th)" by (cases t)
    from Cons.prems have "mutual_exclusion (device_states (s\<lparr>data := d, thresholds := th\<rparr>))"
      by simp
    then have "mutual_exclusion (device_states (auto_control clk (s\<lparr>data := d, thresholds := th\<rparr>)))"
      by (rule auto_control_exclusive)
    then show ?case unfolding t by (simp add: Cons.IH)
  qed
  moreover have "mutual_exclusion (device_states EnvironmentData_init)"
    by (simp add: EnvironmentData_init_def mutual_exclusion_def)
  ultimately show ?thesis .
qed

text \<open>Fixed points of the blocks.\<close>

lemma temperature_control_fixed:
  "heating ds = heating (fst (temperature_control d th x)) \<Longrightarrow>
   cooling ds = cooling (fst (temperature_control d th x)) \<Longrightarrow>
   temperature_control d th (ds, cs) = (ds, cs)"
  by (cases x) (simp add: temperature_control_def Let_def split: prod.splits if_splits)

lemma humidity_control_fixed:
  "humidify ds = humidify (fst (humidity_control d th x)) \<Longrightarrow>
   dehumidify ds = dehumidify (fst (humidity_control d th x)) \<Longrightarrow>
   humidity_control d th (ds, cs) = (ds, cs)"
  by (cases x) (simp add: humidity_control_def Let_def split: prod.splits if_splits)

lemma co2_control_fixed:
  "ventilation ds = ventilation (fst (co2_control d th x)) \<Longrightarrow>
   co2_control d th (ds, cs) = (ds, cs)"
  by (cases x) (simp add: co2_control_def split: if_splits)

lemma auto_control_data:
  "data (auto_control clk s) = data s" "thresholds (auto_control clk s) = thresholds s"
  by (simp_all add: auto_control_def log_changes_fields split: prod.splits)

lemma auto_control_fixed:
  "auto_control clk2 (auto_control clk1 s) = auto_control clk1 s"
proof -
  let ?s1 = "auto_control clk1 s"
  let ?d = "data s" and ?th = "thresholds s"
  let ?t = "temperature_control ?d ?th (device_states s, [])"
  let ?h = "humidity_control ?d ?th ?t"
  let ?c = "co2_control ?d ?th ?h"
  have ds: "device_states ?s1 = fst ?c" by (rule auto_control_device_states)
  have t: "temperature_control ?d ?th (fst ?c, []) = (fst ?c, [])"
    by (rule temperature_control_fixed [where x = "(device_states s, [])"])
       (simp_all add: co2_control_frame humidity_control_frame)
  have h: "humidity_control ?d ?th (fst ?c, []) = (fst ?c, [])"
    by (rule humidity_control_fixed [where x = ?t]) (simp_all add: co2_control_frame)
  have c: "co2_control ?d ?th (fst ?c, []) = (fst ?c, [])"
    by (rule co2_control_fixed [where x = ?h]) simp
  have "auto_control clk2 ?s1 = log_changes clk2 0 [] (?s1\<lparr>device_states := fst ?c\<rparr>)"
    unfolding auto_control_def [of clk2 ?s1] auto_control_data ds t h c by simp
  also have "\<dots> = ?s1" using ds by simp
  finally show ?thesis .
qed

text \<open>
  Claim C5 (idempotent hysteresis). For every state, a second call of \<open>auto_control\<close>
  right after a first one, the sample and the thresholds being those the first call
  left, appends nothing to the event log and leaves the device flags as the first call
  set them.
\<close>

theorem tick_idempotent:
  "events (auto_control clk2 (auto_control clk1 s)) = events (auto_control clk1 s) \<and>
   device_states (auto_control clk2 (auto_control clk1 s)) = device_states (auto_control clk1 s)"
  by (simp add: auto_control_fixed)

lemma control_thresholds_read:
  "temperature_control d (th\<lparr>light_min := a, light_max := b, smoke_max := c\<rparr>) = temperature_control d th"
  "humidity_control d (th\<lparr>light_min := a, light_max := b, smoke_max := c\<rparr>) = humidity_control d th"
  "co2_control d (th\<lparr>light_min := a, light_max := b, smoke_max := c\<rparr>) = co2_control d th"
  by (simp_all add: temperature_control_def humidity_control_def co2_control_def cong: if_cong)

text \<open>
  Claim C10 (frame of a tick). \<open>auto_control\<close> leaves \<open>close_vent\<close> as it was, and
  replacing the light and smoke thresholds by any values changes nothing in its result
  but these thresholds themselves: the device flags, the event log and every other
  field come out the same.
\<close>

theorem tick_frame:
  "close_vent (device_states (auto_control clk s)) = close_vent (device_states s) \<and>
   auto_control clk (s\<lparr>thresholds := (thresholds s)\<lparr>light_min := a, light_max := b, smoke_max := c\<rparr>\<rparr>) =
     (auto_control clk s)\<lparr>thresholds := (thresholds s)\<lparr>light_min := a, light_max := b, smoke_max := c\<rparr>\<rparr>"
proof
  show "close_vent (device_states (auto_control clk s)) = close_vent (device_states s)"
    unfolding auto_control_device_states
    by (simp add: co2_control_frame humidity_control_frame temperature_control_frame)
next
  let ?th = "(thresholds s)\<lparr>light_min := a, light_max := b, smoke_max := c\<rparr>"
  obtain ds cs where r: "co2_control (data s) (thresholds s)
              (humidity_control (data s) (thresholds s)
                (temperature_control (data s) (thresholds s) (device_states s, []))) = (ds, cs)"
    by (cases "co2_control (data s) (thresholds s)
              (humidity_control (data s) (thresholds s)
                (temperature_control (data s) (thresholds s) (device_states s, [])))")
  have sw: "s\<lparr>thresholds := ?th, device_states := ds\<rparr> = s\<lparr>device_states := ds, thresholds := ?th\<rparr>"
    by simp
  have "log_changes clk 0 cs (s\<lparr>thresholds := ?th, device_states := ds\<rparr>) =
          (log_changes clk 0 cs (s\<lparr>device_states := ds\<rparr>))\<lparr>thresholds := ?th\<rparr>"
    unfolding sw by (rule log_changes_thresholds)
  then show "auto_control clk (s\<lparr>thresholds := ?th\<rparr>) = (auto_control clk s)\<lparr>thresholds := ?th\<rparr>"
    by (simp add: auto_control_def control_thresholds_read r)
qed

section \<open>Frames that carry no usable payload\<close>

text \<open>
  Claim C7 (short sensor payload), as the code has it. For every payload shorter than
  20 bytes, \<open>on_serial_data\<close> with command 0x01 returns the state it was given: the
  sample is unchanged, nothing is raised, and the event log is unchanged, no event
  being appended for the ignored frame.
\<close>

theorem short_sensor_payload:
  "length pl < 20 \<Longrightarrow> on_serial_data clk 0x01 pl s = s"
  by (simp add: on_serial_data_def)

text \<open>A two-byte sensor payload on the initial state.\<close>

theorem short_sensor_payload_witness:
  "length [0x41 :: byte, 0x42] < 20 \<and>
   on_serial_data clock0 0x01 [0x41, 0x42] EnvironmentData_init = EnvironmentData_init"
  using short_sensor_payload [of "[0x41, 0x42]" clock0 EnvironmentData_init] by simp

text \<open>
  The claim that one event is appended for an ignored frame fails: on the initial state
  and the empty payload the event log stays empty.
\<close>

theorem short_sensor_payload_logs_nothing:
  "events (on_serial_data clock0 0x01 [] EnvironmentData_init) = [] \<and>
   length (events (on_serial_data clock0 0x01 [] EnvironmentData_init)) \<noteq>
     length (events EnvironmentData_init) + 1"
  by (simp add: on_serial_data_def EnvironmentData_init_def)

section \<open>Without the serial library\<close>

text \<open>
  Claim C8 (no serial library). When \<open>SERIAL_AVAILABLE\<close> is false, \<open>list_ports\<close>
  returns the empty list and \<open>connect\<close>, for every port and baud rate, returns the
  failure \<open>(False, "Serial library not available")\<close> and the manager unchanged, so a
  disconnected manager stays disconnected. Both results are ordinary return values.
\<close>

theorem degraded_serial:
  assumes "\<not> SERIAL_AVAILABLE env"
  shows "list_ports env = [] \<and>
         connect env port baudrate m = (m, (False, ''Serial library not available'')) \<and>
         connected (fst (connect env port baudrate m)) = connected m"
  using assms by (simp add: list_ports_def connect_def)

text \<open>A host without pyserial, port COM1 at 115200 baud, a fresh manager.\<close>

theorem degraded_serial_witness:
  "\<not> SERIAL_AVAILABLE env_without_serial \<and>
   list_ports env_without_serial = [] \<and>
   connect env_without_serial ''COM1'' 115200 SerialManager_init =
     (SerialManager_init, (False, ''Serial library not available'')) \<and>
   connected (fst (connect env_without_serial ''COM1'' 115200 SerialManager_init)) = False"
proof -
  have a: "\<not> SERIAL_AVAILABLE env_without_serial"
    by (simp add: env_without_serial_def)
  have "connected SerialManager_init = False"
    by (simp add: SerialManager_init_def)
  with a degraded_serial [OF a, of "''COM1''" 115200 SerialManager_init] show ?thesis
    by simp
qed

section \<open>The status byte of a device command\<close>

lemma or_if_int: "(if c then (x::int) OR m else x) = x OR (if c then m else 0)"
  by simp

lemma build_current_state_eq:
  "build_current_state device st ds = aggregate_status device st ds"
  by (simp add: build_current_state_def aggregate_status_def device_items_def device_map_def
        effective_state_def or_if_int or.assoc cong: if_cong)

lemma status_bits_range:
  "0 \<le> ((if a then 0x01 else 0) OR (if b then 0x02 else 0) OR (if c then 0x04 else 0) OR
         (if d then 0x08 else 0) OR (if e then 0x10 else 0) OR (if f then 0x20 else (0::int))) \<and>
   ((if a then 0x01 else 0) OR (if b then 0x02 else 0) OR (if c then 0x04 else 0) OR
         (if d then 0x08 else 0) OR (if e then 0x10 else 0) OR (if f then 0x20 else (0::int))) \<le> 255"
  by (cases a; cases b; cases c; cases d; cases e; cases f; simp)

lemma aggregate_status_range:
  "0 \<le> aggregate_status device st ds \<and> aggregate_status device st ds \<le> 255"
  unfolding aggregate_status_def by (rule status_bits_range)

lemma pack_status_frame:
  "0 \<le> b \<Longrightarrow> b \<le> 255 \<Longrightarrow> pack_frame 0x03 [word_of_int b] = Inr (status_frame b)"
  by (simp add: pack_frame_def bytes_of_ints_def status_frame_def Let_def)

lemma device_map_known:
  "device \<in> {''heating'', ''cooling'', ''humidify'', ''dehumidify'', ''ventilation'', ''close_vent''} \<Longrightarrow>
   \<exists>m. map_of device_map device = Some m"
  by (auto simp add: device_map_def)

text \<open>
  Claim C6 (command builder). For each of the six device names, every desired state and
  every recorded device state, the status computed by the loop of
  \<open>send_device_command\<close> is the OR of the bits of the devices whose effective state is
  true; the frame packed for it is the command-0x03 frame with that single payload byte;
  and when the serial port is connected and accepts the write, exactly that frame is
  written and the call reports success.
\<close>

theorem command_builder:
  assumes dev: "device \<in> {''heating'', ''cooling'', ''humidify'', ''dehumidify'', ''ventilation'', ''close_vent''}"
    and conn: "connected (serial_manager s)"
    and port: "ser (serial_manager s) = Some p"
    and wr: "write_error env p (status_frame (aggregate_status device st (device_states s))) = None"
  shows "build_current_state device st (device_states s) = aggregate_status device st (device_states s) \<and>
         pack_frame 0x03 [word_of_int (aggregate_status device st (device_states s))] =
           Inr (status_frame (aggregate_status device st (device_states s))) \<and>
         (\<exists>s'. send_device_command env clk device st s = (s', (True, ''Command sent'')) \<and>
               ser (serial_manager s') =
                 Some (p\<lparr>written := written p @ status_frame (aggregate_status device st (device_states s))\<rparr>))"
proof -
  let ?b = "aggregate_status device st (device_states s)"
  have r: "0 \<le> ?b" "?b \<le> 255"
    using aggregate_status_range [of device st "device_states s"] by simp_all
  have pk: "pack_frame 0x03 [word_of_int ?b] = Inr (status_frame ?b)"
    using r by (rule pack_status_frame)
  obtain m where m: "map_of device_map device = Some m"
    using device_map_known [OF dev] by blast
  have bs: "bytes_of_ints [?b] = Inr [word_of_int ?b]"
    using r by (simp add: bytes_of_ints_def)
  have sc: "send_command env 0x03 [word_of_int ?b] (serial_manager s) =
          ((serial_manager s)\<lparr>ser := Some (p\<lparr>written := written p @ status_frame ?b\<rparr>)\<rparr>,
           (True, ''Command sent''))"
    using conn port wr pk by (simp add: send_command_def)
  have "\<exists>s'. send_device_command env clk device st s = (s', (True, ''Command sent'')) \<and>
          ser (serial_manager s') = Some (p\<lparr>written := written p @ status_frame ?b\<rparr>)"
    using conn m bs sc
    by (simp add: send_device_command_def build_current_state_eq Let_def add_event_def)
  with pk show ?thesis by (simp add: build_current_state_eq)
qed

text \<open>
  Switching cooling on with heating and cooling off and ventilation on: status byte
  0x12, frame AA 02 03 12 13 55.
\<close>

theorem command_builder_witness:
  "build_current_state ''cooling'' True (device_states example_state) = 0x12 \<and>
   pack_frame 0x03 [0x12] = Inr [0xAA, 0x02, 0x03, 0x12, 0x13, 0x55] \<and>
   (\<exists>s'. send_device_command env_with_serial clock0 ''cooling'' True example_state =
            (s', (True, ''Command sent'')) \<and>
         ser (serial_manager s') =
           Some (example_port\<lparr>written := [0xAA, 0x02, 0x03, 0x12, 0x13, 0x55]\<rparr>))"
proof -
  have ds: "device_states example_state =
      \<lparr>heating = False, cooling = False, humidify = False, dehumidify = False,
       ventilation = True, close_vent = False\<rparr>"
    by (simp add: example_state_def EnvironmentData_init_def)
  have ag: "aggregate_status ''cooling'' True (device_states example_state) = 0x12"
    unfolding ds by (simp add: aggregate_status_def effective_state_def)
  have fr: "status_frame 0x12 = [0xAA, 0x02, 0x03, 0x12, 0x13, 0x55]"
    by (simp add: status_frame_def SOF_def EOF_def calc_cs_def)
  have dev: "''cooling'' \<in> {''heating'', ''cooling'', ''humidify'', ''dehumidify'', ''ventilation'', ''close_vent''}"
    by simp
  have sm: "serial_manager example_state =
      SerialManager_init\<lparr>ser := Some example_port, connected := True, stop_flag := False,
                          rx_thread := True\<rparr>"
    by (simp add: example_state_def connect_def env_with_serial_def no_open_error_def
          SerialManager_init_def example_port_def Let_def)
  have conn: "connected (serial_manager example_state)"
    unfolding sm by simp
  have port: "ser (serial_manager example_state) = Some example_port"
    unfolding sm by simp
  have wr: "write_error env_with_serial example_port
              (status_frame (aggregate_status ''cooling'' True (device_states example_state))) = None"
    by (simp add: env_with_serial_def no_write_error_def)
  show ?thesis
    using command_builder [OF dev conn port wr, of clock0]
    unfolding ag fr by (simp add: example_port_def)
qed

section \<open>Exclusion over all mutators\<close>

lemma device_set_exclusive:
  assumes inv: "mutual_exclusion ds" and ok: "\<not> (v \<and> paired_on dev ds)"
  shows "mutual_exclusion (device_set dev v ds)"
proof -
  consider (heating) "dev = ''heating''" | (cooling) "dev = ''cooling''"
    | (humidify) "dev = ''humidify''" | (dehumidify) "dev = ''dehumidify''"
    | (ventilation) "dev = ''ventilation''" | (close_vent) "dev = ''close_vent''"
    | (other) "dev \<noteq> ''heating''" "dev \<noteq> ''cooling''" "dev \<noteq> ''humidify''"
        "dev \<noteq> ''dehumidify''" "dev \<noteq> ''ventilation''" "dev \<noteq> ''close_vent''"
    by blast
  then show ?thesis
  proof cases
    case heating
    with inv ok show ?thesis
      by (simp add: device_set_def paired_on_def mutual_exclusion_def; blast)
  next
    case cooling
    with inv ok show ?thesis
      by (simp add: device_set_def paired_on_def mutual_exclusion_def; blast)
  next
    case humidify
    with inv ok show ?thesis
      by (simp add: device_set_def paired_on_def mutual_exclusion_def; blast)
  next
    case dehumidify
    with inv ok show ?thesis
      by (simp add: device_set_def paired_on_def mutual_exclusion_def; blast)
  next
    case ventilation
    with inv show ?thesis
      by (simp add: device_set_def mutual_exclusion_def)
  next
    case close_vent
    with inv show ?thesis
      by (simp add: device_set_def mutual_exclusion_def)
  next
    case other
    with inv show ?thesis
      by (simp add: device_set_def)
  qed
qed


lemma add_event_fields:
  "device_states (add_event ts et msg lvl s) = device_states s"
  "data (add_event ts et msg lvl s) = data s"
  by (simp_all add: add_event_def Let_def)

lemma device_frame_exclusive:
  assumes "exclusive s (DeviceFrame clk pl)" and "mutual_exclusion (device_states s)"
  shows "mutual_exclusion (device_states (on_serial_data clk 0x02 pl s))"
proof (cases pl)
  case Nil
  with assms(2) show ?thesis by (simp add: on_serial_data_def)
next
  case (Cons b bs)
  with assms(1) show ?thesis
    by (simp add: on_serial_data_def add_event_fields mutual_exclusion_def Let_def)
qed

lemma control_device_exclusive:
  assumes ex: "exclusive s (Manual clk body)" and inv: "mutual_exclusion (device_states s)"
    and ok: "control_device clk body s = Inr (s1, response)"
  shows "mutual_exclusion (device_states s1)"
proof -
  from ok obtain device action where
    d: "json_get body ''device'' = Inr device" and a: "json_get body ''action'' = Inr action"
    by (auto simp add: control_device_def split: sum.splits)
  show ?thesis
  proof (cases device)
    case (JStr dev)
    show ?thesis
    proof (cases "map_of (device_items (device_states s)) dev")
      case None
      with ok d a JStr inv show ?thesis by (simp add: control_device_def)
    next
      case (Some old_state)
      from ex d a JStr have "\<not> (action = JStr ''on'' \<and> paired_on dev (device_states s))"
        by simp
      with inv have "mutual_exclusion (device_set dev (action = JStr ''on'') (device_states s))"
        by (rule device_set_exclusive)
      moreover from ok d a JStr Some have
        "device_states s1 = device_set dev (action = JStr ''on'') (device_states s)"
        by (auto simp add: control_device_def Let_def add_event_fields split: if_splits)
      ultimately show ?thesis by simp
    qed
  next
    case JNull
    with ok d a inv show ?thesis by (simp add: control_device_def)
  next
    case (JBool x)
    with ok d a inv show ?thesis by (simp add: control_device_def)
  next
    case (JNum x)
    with ok d a inv show ?thesis by (simp add: control_device_def)
  next
    case (JList x)
    with ok d a show ?thesis by (simp add: control_device_def)
  next
    case (JDict x)
    with ok d a show ?thesis by (simp add: control_device_def)
  qed
qed

lemma apply_mutator_exclusive:
  assumes "exclusive s m" and "mutual_exclusion (device_states s)"
  shows "mutual_exclusion (device_states (apply_mutator m s))"
proof (cases m)
  case (Tick clk d th)
  from assms(2) have "mutual_exclusion (device_states (s\<lparr>data := d, thresholds := th\<rparr>))"
    by simp
  then show ?thesis unfolding Tick apply_mutator.simps by (rule auto_control_exclusive)
next
  case (DeviceFrame clk pl)
  with assms show ?thesis by (simp add: device_frame_exclusive)
next
  case (Manual clk body)
  show ?thesis
  proof (cases "control_device clk body s")
    case (Inl e)
    with assms(2) Manual show ?thesis by simp
  next
    case (Inr r)
    obtain s1 response where r: "r = (s1, response)" by (cases r)
    from assms Manual Inr r have "mutual_exclusion (device_states s1)"
      by (auto intro: control_device_exclusive)
    with Manual Inr r show ?thesis by simp
  qed
qed


lemma run_exclusive:
  "exclusive_run s ms \<Longrightarrow> mutual_exclusion (device_states s) \<Longrightarrow>
   mutual_exclusion (device_states (run ms s))"
proof (induction ms arbitrary: s)
  case Nil
  then show ?case by (simp only: run.simps)
next
  case (Cons m ms)
  from Cons.prems(1) have e: "exclusive s m" and r: "exclusive_run (apply_mutator m s) ms"
    by (simp_all only: exclusive_run.simps)
  from e Cons.prems(2) have "mutual_exclusion (device_states (apply_mutator m s))"
    by (rule apply_mutator_exclusive)
  with r have "mutual_exclusion (device_states (run ms (apply_mutator m s)))"
    by (rule Cons.IH)
  then show ?case by (simp only: run.simps)
qed

text \<open>
  Claim C3 (exclusion over all mutators), as the code has it. From the initial state,
  after any sequence of ticks, device-state frames and manual requests in which no
  frame carries both bits of a pair and no manual request switches a device on while
  its paired device is on, heating and cooling are not both on and humidify and
  dehumidify are not both on.
\<close>

theorem mutators_exclusion:
  "exclusive_run EnvironmentData_init ms \<Longrightarrow>
   mutual_exclusion (device_states (run ms EnvironmentData_init))"
proof (erule run_exclusive)
  show "mutual_exclusion (device_states EnvironmentData_init)"
    by (simp add: EnvironmentData_init_def mutual_exclusion_def)
qed

lemma manual_request_states:
  assumes "map_of (device_items (device_states s)) dev = Some old_state"
  shows "device_states (apply_mutator (Manual clk (control_request dev act)) s) =
           device_set dev (act = ''on'') (device_states s)"
  using assms
  by (simp add: control_device_def control_request_def json_get_def Let_def add_event_fields)

lemma device_frame_states:
  "device_states (apply_mutator (DeviceFrame clk [b]) s) =
     (device_states s)\<lparr>heating := (b AND 0x01 \<noteq> 0), cooling := (b AND 0x02 \<noteq> 0),
                        humidify := (b AND 0x04 \<noteq> 0), dehumidify := (b AND 0x08 \<noteq> 0),
                        ventilation := (b AND 0x10 \<noteq> 0), close_vent := (b AND 0x20 \<noteq> 0)\<rparr>"
  by (simp add: on_serial_data_def add_event_fields Let_def)

text \<open>
  Without the restriction the exclusion fails: a device-state frame with status 0x03
  sets heating and cooling together, and two manual requests switch humidify and
  dehumidify on together.
\<close>

theorem mutators_break_exclusion:
  "heating (device_states (run [DeviceFrame clock0 [0x03]] EnvironmentData_init)) \<and>
   cooling (device_states (run [DeviceFrame clock0 [0x03]] EnvironmentData_init)) \<and>
   humidify (device_states (run [Manual clock0 (control_request ''humidify'' ''on''),
                                 Manual clock0 (control_request ''dehumidify'' ''on'')]
                                EnvironmentData_init)) \<and>
   dehumidify (device_states (run [Manual clock0 (control_request ''humidify'' ''on''),
                                   Manual clock0 (control_request ''dehumidify'' ''on'')]
                                  EnvironmentData_init))"
proof -
  let ?s1 = "apply_mutator (Manual clock0 (control_request ''humidify'' ''on'')) EnvironmentData_init"
  have a: "device_states ?s1 = device_set ''humidify'' True (device_states EnvironmentData_init)"
    using manual_request_states [of EnvironmentData_init "''humidify''" False clock0 "''on''"]
    by (simp add: device_items_def EnvironmentData_init_def)
  have b: "device_states (apply_mutator (Manual clock0 (control_request ''dehumidify'' ''on'')) ?s1) =
             device_set ''dehumidify'' True (device_states ?s1)"
    using manual_request_states [of ?s1 "''dehumidify''" False clock0 "''on''"]
    unfolding a by (simp add: device_items_def device_set_def EnvironmentData_init_def)
  have c: "humidify (device_set ''dehumidify'' True (device_set ''humidify'' True ds)) \<and>
           dehumidify (device_set ''dehumidify'' True (device_set ''humidify'' True ds))" for ds
    by (simp add: device_set_def)
  show ?thesis
    unfolding run.simps device_frame_states b a using c by simp
qed

text \<open>
  A frame with status 0x11, a manual request to switch humidify on, and a tick.
\<close>

theorem mutators_exclusion_witness:
  "exclusive_run EnvironmentData_init
     [DeviceFrame clock0 [0x11], Manual clock0 (control_request ''humidify'' ''on''),
      Tick clock0 (data EnvironmentData_init) (thresholds EnvironmentData_init)] \<and>
   mutual_exclusion (device_states (run
     [DeviceFrame clock0 [0x11], Manual clock0 (control_request ''humidify'' ''on''),
      Tick clock0 (data EnvironmentData_init) (thresholds EnvironmentData_init)]
     EnvironmentData_init))"
proof -
  have "exclusive_run EnvironmentData_init
     [DeviceFrame clock0 [0x11], Manual clock0 (control_request ''humidify'' ''on''),
      Tick clock0 (data EnvironmentData_init) (thresholds EnvironmentData_init)]"
    by (simp add: device_frame_states control_request_def json_get_def paired_on_def
          del: apply_mutator.simps)
  then show ?thesis
    using mutators_exclusion by blast
qed

end
